theory Spec2Isabelle
  imports Main "HOL-Library.Sublist"
begin

section \<open>The chat store of \<^verbatim>\<open>frontend/src/stores/useChatStore.ts\<close>\<close>

text \<open>
  The store is a zustand container: a record of fields and a handful of operations that
  replace fields with \<^verbatim>\<open>set\<close>. Every operation is modelled as a function from the store
  to the updated store, paired with what it sends out (HTTP requests, socket calls).
  The element types \<^verbatim>\<open>User\<close> and \<^verbatim>\<open>Message\<close> are declared outside this file and are
  never inspected by the store, so they are type parameters.
\<close>

subsection \<open>Untyped values\<close>

text \<open>
  The body of an error response is typed \<^verbatim>\<open>any\<close>, and the store reads
  \<^verbatim>\<open>error.response.data.message\<close> from it unchecked, so the model carries JavaScript
  values as they are at run time. Numbers are never inspected; integers stand in for them.
  An object is the list of its own properties, each key once.
\<close>

datatype js_value =
    JUndefined
  | JNull
  | JBoolean bool
  | JNumber int
  | JString string
  | JArray "js_value list"
  | JObject "(string \<times> js_value) list"

datatype js_exception = TypeError

text \<open>
  \<^verbatim>\<open>data.message\<close>: reading a property of \<^verbatim>\<open>undefined\<close> or \<^verbatim>\<open>null\<close> throws a TypeError;
  an object yields the property or \<^verbatim>\<open>undefined\<close>; every other value (a string body, a
  number, an array) has no property of that name and yields \<^verbatim>\<open>undefined\<close>.
\<close>

fun get_message :: "js_value \<Rightarrow> js_exception + js_value" where
  "get_message JUndefined = Inl TypeError"
| "get_message JNull = Inl TypeError"
| "get_message (JObject props) =
     Inr (case map_of props ''message'' of None \<Rightarrow> JUndefined | Some v \<Rightarrow> v)"
| "get_message (JBoolean b) = Inr JUndefined"
| "get_message (JNumber n) = Inr JUndefined"
| "get_message (JString s) = Inr JUndefined"
| "get_message (JArray vs) = Inr JUndefined"

subsection \<open>HTTP outcomes\<close>

text \<open>
  What \<^verbatim>\<open>await axiosInstance.get(...)\<close> can do: resolve with a payload, or throw. The
  thrown value is an \<^verbatim>\<open>AxiosError\<close>, with a response (the server answered with an error
  status) or without one (no answer arrived), or any other value.
\<close>

datatype axios_response = Response (data: js_value)

datatype thrown = AxiosError (response: "axios_response option") | OtherThrown

datatype 'a http_outcome = Resolved 'a | Rejected thrown

text \<open>How the promise returned by an async operation settles.\<close>

datatype promise = Fulfilled | RejectedWith js_exception

text \<open>
  \<^verbatim>\<open>error instanceof AxiosError && error.response ? error.response.data.message : fallback\<close>
\<close>

fun errMsg :: "string \<Rightarrow> thrown \<Rightarrow> js_exception + js_value" where
  "errMsg fallback (AxiosError (Some r)) = get_message (data r)"
| "errMsg fallback (AxiosError None) = Inr (JString fallback)"
| "errMsg fallback OtherThrown = Inr (JString fallback)"

subsection \<open>The store\<close>

text \<open>
  A socket is what \<^verbatim>\<open>io(baseURL, {autoConnect: false, withCredentials: true, auth: {userId}})\<close>
  was given: the URL and the user id.
\<close>

datatype socket = Socket (url: string) (auth_userId: string)

text \<open>
  The field \<^verbatim>\<open>error\<close> is declared \<^verbatim>\<open>string | null\<close>, but it is assigned from an
  \<^verbatim>\<open>any\<close>, so it holds a \<^typ>\<open>js_value\<close>.
\<close>

record ('user, 'message) ChatStore =
  users :: "'user list"
  isLoading :: bool
  error :: js_value
  socket :: "socket option"
  isConnected :: bool
  onlineUsers :: "string set"
  userActivities :: "string \<rightharpoonup> string"
  messages :: "'message list"
  selectedUser :: "'user option"

definition useChatStore :: "('user, 'message) ChatStore" where
  "useChatStore =
     \<lparr> users = [], isLoading = False, error = JNull, socket = None, isConnected = False,
       onlineUsers = {}, userActivities = Map.empty, messages = [], selectedUser = None \<rparr>"

text \<open>What an operation sends out, in the order of the calls.\<close>

datatype effect =
    HttpGet string
  | Connect socket
  | Emit socket string js_value
  | Disconnect socket

definition baseURL :: "string \<Rightarrow> string" where
  "baseURL mode = (if mode = ''development'' then ''http://localhost:5000'' else ''/'')"

subsection \<open>Operations\<close>

definition setSelectedUser ::
  "'user option \<Rightarrow> ('user, 'message) ChatStore \<Rightarrow> ('user, 'message) ChatStore \<times> effect list" where
  "setSelectedUser user st = (st\<lparr>selectedUser := user\<rparr>, [])"

text \<open>
  An async operation runs in two pieces: up to the \<^verbatim>\<open>await\<close> (the request is sent), and
  from the settling of the request to the end (\<^verbatim>\<open>try\<close> or \<^verbatim>\<open>catch\<close>, then \<^verbatim>\<open>finally\<close>).
  Other store updates may run between the two. An exception thrown inside \<^verbatim>\<open>catch\<close>
  skips the rest of the handler, still runs \<^verbatim>\<open>finally\<close>, and rejects the promise.
  \<open>fetchUsers\<close> and \<open>fetchMessages\<close> are the whole call, its two pieces run one after
  the other with nothing in between; the argument \<open>outcome\<close> is what the request does.
\<close>

definition fetchUsers_start ::
  "('user, 'message) ChatStore \<Rightarrow> ('user, 'message) ChatStore \<times> effect list" where
  "fetchUsers_start st = (st\<lparr>isLoading := True, error := JNull\<rparr>, [HttpGet ''/users''])"

definition fetchUsers_settle ::
  "'user list http_outcome \<Rightarrow> ('user, 'message) ChatStore \<Rightarrow> ('user, 'message) ChatStore \<times> promise" where
  "fetchUsers_settle outcome st =
     (case outcome of
        Resolved d \<Rightarrow> ((st\<lparr>users := d\<rparr>)\<lparr>isLoading := False\<rparr>, Fulfilled)
      | Rejected e \<Rightarrow>
          (case errMsg ''Error al obtener usuarios'' e of
             Inr m \<Rightarrow> ((st\<lparr>error := m\<rparr>)\<lparr>isLoading := False\<rparr>, Fulfilled)
           | Inl x \<Rightarrow> (st\<lparr>isLoading := False\<rparr>, RejectedWith x)))"

definition fetchUsers ::
  "'user list http_outcome \<Rightarrow> ('user, 'message) ChatStore \<Rightarrow> ('user, 'message) ChatStore \<times> promise" where
  "fetchUsers outcome st = fetchUsers_settle outcome (fst (fetchUsers_start st))"

definition fetchMessages_start ::
  "string \<Rightarrow> ('user, 'message) ChatStore \<Rightarrow> ('user, 'message) ChatStore \<times> effect list" where
  "fetchMessages_start userId st =
     (st\<lparr>isLoading := True, error := JNull\<rparr>, [HttpGet (''/users/messages/'' @ userId)])"

definition fetchMessages_settle ::
  "'message list http_outcome \<Rightarrow> ('user, 'message) ChatStore \<Rightarrow> ('user, 'message) ChatStore \<times> promise" where
  "fetchMessages_settle outcome st =
     (case outcome of
        Resolved d \<Rightarrow> ((st\<lparr>messages := d\<rparr>)\<lparr>isLoading := False\<rparr>, Fulfilled)
      | Rejected e \<Rightarrow>
          (case errMsg ''Error al obtener mensajes'' e of
             Inr m \<Rightarrow> ((st\<lparr>error := m\<rparr>)\<lparr>isLoading := False\<rparr>, Fulfilled)
           | Inl x \<Rightarrow> (st\<lparr>isLoading := False\<rparr>, RejectedWith x)))"

definition fetchMessages ::
  "string \<Rightarrow> 'message list http_outcome \<Rightarrow> ('user, 'message) ChatStore \<Rightarrow>
     ('user, 'message) ChatStore \<times> promise" where
  "fetchMessages userId outcome st = fetchMessages_settle outcome (fst (fetchMessages_start userId st))"

definition initSocket ::
  "string \<Rightarrow> string \<Rightarrow> ('user, 'message) ChatStore \<Rightarrow> ('user, 'message) ChatStore \<times> effect list" where
  "initSocket mode userId st =
     (if isConnected st then (st, [])
      else
        let sock = Socket (baseURL mode) userId
        in (st\<lparr>socket := Some sock, isConnected := True\<rparr>,
            [Connect sock, Emit sock ''user_connected'' (JString userId)]))"

definition disconnectSocket ::
  "('user, 'message) ChatStore \<Rightarrow> ('user, 'message) ChatStore \<times> effect list" where
  "disconnectSocket st =
     (case socket st of
        Some sock \<Rightarrow> (st\<lparr>socket := None, isConnected := False\<rparr>, [Disconnect sock])
      | None \<Rightarrow> (st, []))"

definition sendMessage ::
  "string \<Rightarrow> string \<Rightarrow> string \<Rightarrow> ('user, 'message) ChatStore \<Rightarrow>
     ('user, 'message) ChatStore \<times> effect list" where
  "sendMessage receiverId senderId content st =
     (case socket st of
        Some sock \<Rightarrow>
          (st, [Emit sock ''send_message''
                  (JObject [(''receiverId'', JString receiverId),
                            (''senderId'', JString senderId),
                            (''content'', JString content)])])
      | None \<Rightarrow> (st, []))"

subsection \<open>Handlers of the incoming socket events\<close>

text \<open>
  \<^verbatim>\<open>new Map(entries)\<close> inserts the entries in order, so a later entry for a key replaces
  an earlier one.
\<close>

definition new_Map :: "(string \<times> string) list \<Rightarrow> (string \<rightharpoonup> string)" where
  "new_Map entries = foldl (\<lambda>m (k, v). m(k \<mapsto> v)) Map.empty entries"

datatype 'message inbound =
    Users_online "string list"
  | Activities "(string \<times> string) list"
  | User_connected string
  | User_disconnected string
  | Receive_message 'message
  | Message_sent 'message
  | Activity_updated string string

fun socket_on :: "'message inbound \<Rightarrow> ('user, 'message) ChatStore \<Rightarrow> ('user, 'message) ChatStore" where
  "socket_on (Users_online us) st = st\<lparr>onlineUsers := set us\<rparr>"
| "socket_on (Activities activities) st = st\<lparr>userActivities := new_Map activities\<rparr>"
| "socket_on (User_connected i) st = st\<lparr>onlineUsers := onlineUsers st \<union> {i}\<rparr>"
| "socket_on (User_disconnected i) st = st\<lparr>onlineUsers := onlineUsers st - {i}\<rparr>"
| "socket_on (Receive_message message) st = st\<lparr>messages := messages st @ [message]\<rparr>"
| "socket_on (Message_sent message) st = st\<lparr>messages := messages st @ [message]\<rparr>"
| "socket_on (Activity_updated userId activity) st =
     st\<lparr>userActivities := (userActivities st)(userId \<mapsto> activity)\<rparr>"

subsection \<open>Runs of the store\<close>

text \<open>
  Everything that can happen to the store: a call of one of its operations, the settling
  of a pending request, or the delivery of a socket event to its handler. The two pieces
  of a fetch are separate actions, so a run may place other actions between them. Runs
  are not restricted further (a request may settle that was never sent, an event may
  arrive with no socket), so they include every run of the program.
\<close>

datatype ('user, 'message) action =
    SetSelectedUser "'user option"
  | FetchUsers_start
  | FetchUsers_settle "'user list http_outcome"
  | InitSocket string
  | DisconnectSocket
  | SendMessage string string string
  | FetchMessages_start string
  | FetchMessages_settle "'message list http_outcome"
  | Deliver "'message inbound"

fun step ::
  "string \<Rightarrow> ('user, 'message) action \<Rightarrow> ('user, 'message) ChatStore \<Rightarrow>
     ('user, 'message) ChatStore \<times> effect list" where
  "step mode (SetSelectedUser user) st = setSelectedUser user st"
| "step mode FetchUsers_start st = fetchUsers_start st"
| "step mode (FetchUsers_settle outcome) st = (fst (fetchUsers_settle outcome st), [])"
| "step mode (InitSocket userId) st = initSocket mode userId st"
| "step mode DisconnectSocket st = disconnectSocket st"
| "step mode (SendMessage receiverId senderId content) st = sendMessage receiverId senderId content st"
| "step mode (FetchMessages_start userId) st = fetchMessages_start userId st"
| "step mode (FetchMessages_settle outcome) st = (fst (fetchMessages_settle outcome st), [])"
| "step mode (Deliver ev) st = (socket_on ev st, [])"

fun run ::
  "string \<Rightarrow> ('user, 'message) action list \<Rightarrow> ('user, 'message) ChatStore \<Rightarrow>
     ('user, 'message) ChatStore \<times> effect list" where
  "run mode [] st = (st, [])"
| "run mode (a # as) st =
     (case step mode a st of (st', es) \<Rightarrow>
        (case run mode as st' of (st'', es') \<Rightarrow> (st'', es @ es')))"

text \<open>The calls of \<^verbatim>\<open>socket.emit\<close> among the effects.\<close>

fun emits :: "effect list \<Rightarrow> effect list" where
  "emits [] = []"
| "emits (Emit sock name payload # es) = Emit sock name payload # emits es"
| "emits (e # es) = emits es"

text \<open>
  A trace of effects opens no connection while one is open: \<open>opens_ok b es\<close> reads the
  trace \<open>es\<close>, where \<open>b\<close> says whether a connection is open before it.
\<close>

fun opens_ok :: "bool \<Rightarrow> effect list \<Rightarrow> bool" where
  "opens_ok b [] = True"
| "opens_ok b (Connect sock # es) = (\<not> b \<and> opens_ok True es)"
| "opens_ok b (Disconnect sock # es) = opens_ok False es"
| "opens_ok b (e # es) = opens_ok b es"

text \<open>The connected flag and the socket field agree.\<close>

definition conn_inv :: "('user, 'message) ChatStore \<Rightarrow> bool" where
  "conn_inv st = (isConnected st = (socket st \<noteq> None))"

text \<open>The actions in which a request fails: the only ones whose \<^verbatim>\<open>catch\<close> branch runs.\<close>

fun rejected_settle :: "('user, 'message) action \<Rightarrow> bool" where
  "rejected_settle (FetchUsers_settle (Rejected e)) = True"
| "rejected_settle (FetchMessages_settle (Rejected e)) = True"
| "rejected_settle a = False"

section \<open>Properties\<close>

subsection \<open>Auxiliary facts\<close>

lemma socket_on_socket: "socket (socket_on ev st) = socket st"
  by (cases ev) simp_all

lemma socket_on_isConnected: "isConnected (socket_on ev st) = isConnected st"
  by (cases ev) simp_all

lemma socket_on_messages_prefix: "prefix (messages st) (messages (socket_on ev st))"
  by (cases ev) simp_all

lemma fetchUsers_settle_connection:
  "socket (fst (fetchUsers_settle outcome st)) = socket st"
  "isConnected (fst (fetchUsers_settle outcome st)) = isConnected st"
  by (simp_all add: fetchUsers_settle_def split: http_outcome.splits sum.splits)

lemma fetchMessages_settle_connection:
  "socket (fst (fetchMessages_settle outcome st)) = socket st"
  "isConnected (fst (fetchMessages_settle outcome st)) = isConnected st"
  by (simp_all add: fetchMessages_settle_def split: http_outcome.splits sum.splits)

lemma step_conn_inv: "conn_inv st \<Longrightarrow> conn_inv (fst (step mode a st))"
  by (cases a)
     (auto simp: conn_inv_def setSelectedUser_def fetchUsers_start_def fetchMessages_start_def
        initSocket_def Let_def disconnectSocket_def sendMessage_def socket_on_socket
        socket_on_isConnected fetchUsers_settle_connection fetchMessages_settle_connection
        split: option.splits)

lemma run_Cons_fst: "fst (run mode (a # acts) st) = fst (run mode acts (fst (step mode a st)))"
  by (simp split: prod.splits)

lemma run_Cons_snd:
  "snd (run mode (a # acts) st) = snd (step mode a st) @ snd (run mode acts (fst (step mode a st)))"
  by (simp split: prod.splits)

lemma run_conn_inv: "conn_inv st \<Longrightarrow> conn_inv (fst (run mode acts st))"
proof (induction acts arbitrary: st)
  case Nil
  then show ?case by simp
next
  case (Cons a acts)
  from Cons.prems have "conn_inv (fst (step mode a st))" by (rule step_conn_inv)
  then have "conn_inv (fst (run mode acts (fst (step mode a st))))" by (rule Cons.IH)
  then show ?case by (simp only: run_Cons_fst)
qed

lemma step_opens:
  "opens_ok (isConnected (fst (step mode a st))) es' \<Longrightarrow>
   opens_ok (isConnected st) (snd (step mode a st) @ es')"
  by (cases a)
     (auto simp: setSelectedUser_def fetchUsers_start_def fetchMessages_start_def
        initSocket_def Let_def disconnectSocket_def sendMessage_def
        socket_on_isConnected fetchUsers_settle_connection fetchMessages_settle_connection
        split: option.splits if_splits)

lemma run_opens_ok: "opens_ok (isConnected st) (snd (run mode acts st))"
proof (induction acts arbitrary: st)
  case Nil
  show ?case by simp
next
  case (Cons a acts)
  have "opens_ok (isConnected (fst (step mode a st))) (snd (run mode acts (fst (step mode a st))))"
    by (rule Cons.IH)
  then have "opens_ok (isConnected st) (snd (step mode a st) @ snd (run mode acts (fst (step mode a st))))"
    by (rule step_opens)
  then show ?case by (simp only: run_Cons_snd)
qed


lemma foldl_upd_map_of: "foldl (\<lambda>m (k, v). m(k \<mapsto> v)) m0 P = m0 ++ map_of (rev P)"
proof (induction P arbitrary: m0)
  case Nil
  show ?case by simp
next
  case (Cons p P)
  obtain k v where p: "p = (k, v)" by (cases p)
  have "foldl (\<lambda>m (k, v). m(k \<mapsto> v)) m0 (p # P) = foldl (\<lambda>m (k, v). m(k \<mapsto> v)) (m0(k \<mapsto> v)) P"
    by (simp only: p foldl_Cons prod.case)
  also have "\<dots> = m0(k \<mapsto> v) ++ map_of (rev P)"
    by (rule Cons.IH)
  also have "\<dots> = m0 ++ ([k \<mapsto> v] ++ map_of (rev P))"
    by (rule ext) (simp add: map_add_def split: option.splits)
  also have "\<dots> = m0 ++ map_of (rev (p # P))"
    by (simp only: p rev.simps map_of_append map_of.simps prod.sel)
  finally show ?case .
qed

lemma new_Map_last_wins: "new_Map P = map_of (rev P)"
  by (simp add: new_Map_def foldl_upd_map_of)

lemma fetch_settle_isLoading:
  "isLoading (fst (fetchUsers_settle outcome st)) = False"
  "isLoading (fst (fetchMessages_settle outcome' st)) = False"
  by (simp_all add: fetchUsers_settle_def fetchMessages_settle_def split: http_outcome.splits sum.splits)

lemma fetch_settle_resolved:
  "fetchUsers_settle (Resolved d) st = (st\<lparr>users := d, isLoading := False\<rparr>, Fulfilled)"
  "fetchMessages_settle (Resolved d') st = (st\<lparr>messages := d', isLoading := False\<rparr>, Fulfilled)"
  by (simp_all add: fetchUsers_settle_def fetchMessages_settle_def)

lemma fetch_settle_rejected_error:
  "error (fst (fetchUsers_settle (Rejected e) st)) =
     (case errMsg ''Error al obtener usuarios'' e of Inr m \<Rightarrow> m | Inl x \<Rightarrow> error st)"
  "error (fst (fetchMessages_settle (Rejected e) st)) =
     (case errMsg ''Error al obtener mensajes'' e of Inr m \<Rightarrow> m | Inl x \<Rightarrow> error st)"
  by (simp_all add: fetchUsers_settle_def fetchMessages_settle_def split: sum.splits)

lemma errMsg_string_message:
  "map_of props ''message'' = Some (JString s) \<Longrightarrow>
   errMsg fallback (AxiosError (Some (Response (JObject props)))) = Inr (JString s)"
  by simp

lemma isConnected_useChatStore: "isConnected useChatStore = False"
  by (simp add: useChatStore_def)

lemma run_append_fst:
  "fst (run mode (acts @ acts') st) = fst (run mode acts' (fst (run mode acts st)))"
proof (induction acts arbitrary: st)
  case Nil
  show ?case by simp
next
  case (Cons a acts)
  have "fst (run mode ((a # acts) @ acts') st) = fst (run mode (acts @ acts') (fst (step mode a st)))"
    by (simp only: append_Cons run_Cons_fst)
  also have "\<dots> = fst (run mode acts' (fst (run mode acts (fst (step mode a st)))))"
    by (rule Cons.IH)
  also have "\<dots> = fst (run mode acts' (fst (run mode (a # acts) st)))"
    by (simp only: run_Cons_fst)
  finally show ?case .
qed

lemma step_error_null:
  "\<not> rejected_settle a \<Longrightarrow> error st = JNull \<Longrightarrow> error (fst (step mode a st)) = JNull"
proof (cases a)
  case (FetchUsers_settle outcome)
  assume "\<not> rejected_settle a" "error st = JNull"
  with FetchUsers_settle show ?thesis
    by (cases outcome) (simp_all add: fetchUsers_settle_def)
next
  case (FetchMessages_settle outcome)
  assume "\<not> rejected_settle a" "error st = JNull"
  with FetchMessages_settle show ?thesis
    by (cases outcome) (simp_all add: fetchMessages_settle_def)
next
  case (Deliver ev)
  assume "error st = JNull"
  with Deliver show ?thesis by (cases ev) simp_all
qed (simp_all add: setSelectedUser_def fetchUsers_start_def fetchMessages_start_def
       initSocket_def Let_def disconnectSocket_def sendMessage_def split: option.splits)

lemma run_error_null:
  "\<forall>a \<in> set acts. \<not> rejected_settle a \<Longrightarrow> error st = JNull \<Longrightarrow>
   error (fst (run mode acts st)) = JNull"
proof (induction acts arbitrary: st)
  case Nil
  then show ?case by simp
next
  case (Cons a acts)
  from Cons.prems have "error (fst (step mode a st)) = JNull"
    by (simp add: step_error_null)
  moreover from Cons.prems have "\<forall>b \<in> set acts. \<not> rejected_settle b" by simp
  ultimately have "error (fst (run mode acts (fst (step mode a st)))) = JNull"
    by (rule Cons.IH [rotated])
  then show ?case by (simp only: run_Cons_fst)
qed

subsection \<open>The claims of the specification\<close>

text \<open>
  Claim C1: whatever the request does, a fetch that succeeds replaces its list with the
  payload, a fetch that fails stores an error string, and \<open>isLoading\<close> is false at the end.
  The first and the last part hold (\<open>fetch_settle_resolved\<close>, \<open>fetch_settle_isLoading\<close>),
  and a string is stored when no response arrived or the response body carries a string
  \<^verbatim>\<open>message\<close> (\<open>fetch_settle_rejected_error\<close>, \<open>errMsg_string_message\<close>). The second
  part fails when the server answers with an error status and a body without a
  \<^verbatim>\<open>message\<close> property: for a plain-text 404 body, \<open>fetchUsers\<close> stores \<^verbatim>\<open>undefined\<close>,
  which is no string, and for a \<^verbatim>\<open>null\<close> body the read of \<^verbatim>\<open>data.message\<close> throws
  inside \<^verbatim>\<open>catch\<close>, the error stays \<^verbatim>\<open>null\<close> and the promise rejects.
\<close>

theorem fetchUsers_failure_stores_no_string:
  "fetchUsers (Rejected (AxiosError (Some (Response (JString ''Cannot GET /users''))))) useChatStore
     = (\<lparr> users = [], isLoading = False, error = JUndefined, socket = None, isConnected = False,
          onlineUsers = {}, userActivities = Map.empty, messages = [], selectedUser = None \<rparr>,
        Fulfilled)
   \<and> fetchUsers (Rejected (AxiosError (Some (Response JNull)))) useChatStore
     = (\<lparr> users = [], isLoading = False, error = JNull, socket = None, isConnected = False,
          onlineUsers = {}, userActivities = Map.empty, messages = [], selectedUser = None \<rparr>,
        RejectedWith TypeError)"
  by (simp add: fetchUsers_def fetchUsers_start_def fetchUsers_settle_def useChatStore_def)

text \<open>
  Claim C2: the stored error is the server's message when the failure carries a response
  that contains one, and the fixed fallback string otherwise. The fallback is chosen only
  when there is no response at all: for a response whose body is an object without a
  \<^verbatim>\<open>message\<close> property, \<open>fetchMessages\<close> stores \<^verbatim>\<open>undefined\<close>, not
  \<^verbatim>\<open>'Error al obtener mensajes'\<close>.
\<close>

theorem fetchMessages_failure_without_message:
  "error (fst (fetchMessages ''u1''
       (Rejected (AxiosError (Some (Response (JObject [(''error'', JString ''Not found'')])))))
       useChatStore)) = JUndefined
   \<and> error (fst (fetchMessages ''u1''
       (Rejected (AxiosError (Some (Response (JObject [(''error'', JString ''Not found'')])))))
       useChatStore)) \<noteq> JString ''Error al obtener mensajes''"
  by (simp add: fetchMessages_def fetchMessages_start_def fetchMessages_settle_def useChatStore_def)

text \<open>
  Claim C3: a connection is opened at most once while connected. In a store whose
  \<open>isConnected\<close> is true, \<open>initSocket\<close> with any user id returns the store as it is and
  sends nothing; and in the effects of every run from the initial store, no connection is
  opened while an earlier one has not been disconnected.
\<close>

theorem initSocket_at_most_once:
  "(isConnected st \<longrightarrow> initSocket mode userId st = (st, []))
   \<and> opens_ok False (snd (run mode acts useChatStore))"
proof
  show "isConnected st \<longrightarrow> initSocket mode userId st = (st, [])"
    by (simp add: initSocket_def)
next
  show "opens_ok False (snd (run mode acts useChatStore))"
    using run_opens_ok [of useChatStore mode acts] by (simp add: isConnected_useChatStore)
qed

theorem initSocket_at_most_once_witness:
  "isConnected (fst (initSocket ''production'' ''u1'' (useChatStore :: (string, string) ChatStore)))
   \<and> initSocket ''production'' ''u2'' (fst (initSocket ''production'' ''u1'' useChatStore))
       = (fst (initSocket ''production'' ''u1'' (useChatStore :: (string, string) ChatStore)), [])
   \<and> opens_ok False (snd (run ''production''
         [InitSocket ''u1'', InitSocket ''u2'', DisconnectSocket, InitSocket ''u2'']
         (useChatStore :: (string, string) ChatStore)))"
  using initSocket_at_most_once
    [of "fst (initSocket ''production'' ''u1'' (useChatStore :: (string, string) ChatStore))"
        "''production''" "''u2''"
        "[InitSocket ''u1'', InitSocket ''u2'', DisconnectSocket, InitSocket ''u2'']"]
  by (simp add: initSocket_def useChatStore_def Let_def)

text \<open>
  Claim C4: the handlers of \<^verbatim>\<open>receive_message\<close> and \<^verbatim>\<open>message_sent\<close> put the message at the
  end of the list, leaving what was there in place and adding one more occurrence of the
  message even if it was in the list already; every socket event leaves the old list as a
  prefix of the new one; a successful \<open>fetchMessages\<close> makes the list the payload.
\<close>

theorem messages_append_only:
  "messages (socket_on (Receive_message m) st) = messages st @ [m]
   \<and> messages (socket_on (Message_sent m) st) = messages st @ [m]
   \<and> count_list (messages (socket_on (Receive_message m) st)) m = Suc (count_list (messages st) m)
   \<and> count_list (messages (socket_on (Message_sent m) st)) m = Suc (count_list (messages st) m)
   \<and> prefix (messages st) (messages (socket_on ev st))
   \<and> messages (fst (fetchMessages_settle (Resolved d) st)) = d
   \<and> messages (fst (fetchMessages userId (Resolved d) st)) = d"
  by (simp add: socket_on_messages_prefix fetchMessages_def fetchMessages_settle_def)

text \<open>
  Claim C5: \<^verbatim>\<open>users_online\<close> makes \<open>onlineUsers\<close> the set of the identifiers it carries,
  \<^verbatim>\<open>user_connected\<close> adds its identifier, \<^verbatim>\<open>user_disconnected\<close> removes its identifier,
  and in the last two cases every other identifier is a member after the event exactly
  when it was one before.
\<close>

theorem onlineUsers_events:
  "onlineUsers (socket_on (Users_online L) st) = set L
   \<and> onlineUsers (socket_on (User_connected u) st) = insert u (onlineUsers st)
   \<and> onlineUsers (socket_on (User_disconnected u) st) = onlineUsers st - {u}
   \<and> (v \<noteq> u \<longrightarrow> (v \<in> onlineUsers (socket_on (User_connected u) st)) = (v \<in> onlineUsers st))
   \<and> (v \<noteq> u \<longrightarrow> (v \<in> onlineUsers (socket_on (User_disconnected u) st)) = (v \<in> onlineUsers st))"
  by simp

theorem onlineUsers_events_witness:
  "''bob'' \<noteq> ''ann''
   \<and> onlineUsers (socket_on (User_connected ''ann'')
        (socket_on (Users_online [''bob'', ''cy'']) (useChatStore :: (string, string) ChatStore)))
       = {''ann'', ''bob'', ''cy''}
   \<and> (''bob'' \<in> onlineUsers (socket_on (User_disconnected ''ann'')
        (socket_on (Users_online [''bob'', ''ann'']) (useChatStore :: (string, string) ChatStore))))
   \<and> (''ann'' \<notin> onlineUsers (socket_on (User_disconnected ''ann'')
        (socket_on (Users_online [''bob'', ''ann'']) (useChatStore :: (string, string) ChatStore))))"
  using onlineUsers_events
    [of "[''bob'', ''cy'']"
        "socket_on (Users_online [''bob'', ''cy'']) (useChatStore :: (string, string) ChatStore)" "''ann''" "''bob''"]
    onlineUsers_events
    [of "[''bob'', ''ann'']"
        "socket_on (Users_online [''bob'', ''ann'']) (useChatStore :: (string, string) ChatStore)" "''ann''" "''bob''"]
  by auto

text \<open>
  Claim C6: \<^verbatim>\<open>activities\<close> makes \<open>userActivities\<close> the map built from the pairs it carries
  (the last pair of a key is the one that counts), and \<^verbatim>\<open>activity_updated\<close> for user
  \<open>u\<close> with activity \<open>a\<close> maps \<open>u\<close> to \<open>a\<close> and leaves every other key as it was.
\<close>

theorem userActivities_events:
  "userActivities (socket_on (Activities P) st) = new_Map P
   \<and> new_Map P = map_of (rev P)
   \<and> userActivities (socket_on (Activity_updated u a) st) u = Some a
   \<and> (k \<noteq> u \<longrightarrow> userActivities (socket_on (Activity_updated u a) st) k = userActivities st k)"
  by (simp add: new_Map_last_wins)

theorem userActivities_events_witness:
  "''bob'' \<noteq> ''ann''
   \<and> userActivities (socket_on (Activities [(''ann'', ''Idle''), (''bob'', ''Idle''), (''ann'', ''Playing'')])
        (useChatStore :: (string, string) ChatStore)) ''ann'' = Some ''Playing''
   \<and> userActivities (socket_on (Activity_updated ''ann'' ''Idle'')
        (socket_on (Activities [(''ann'', ''Playing''), (''bob'', ''Paused'')])
           (useChatStore :: (string, string) ChatStore))) ''ann'' = Some ''Idle''
   \<and> userActivities (socket_on (Activity_updated ''ann'' ''Idle'')
        (socket_on (Activities [(''ann'', ''Playing''), (''bob'', ''Paused'')])
           (useChatStore :: (string, string) ChatStore))) ''bob'' = Some ''Paused''"
  using userActivities_events
    [of "[(''ann'', ''Idle''), (''bob'', ''Idle''), (''ann'', ''Playing'')]"
        "useChatStore :: (string, string) ChatStore" "''ann''" "''Idle''" "''bob''"]
    userActivities_events
    [of "[(''ann'', ''Playing''), (''bob'', ''Paused'')]"
        "socket_on (Activities [(''ann'', ''Playing''), (''bob'', ''Paused'')])
           (useChatStore :: (string, string) ChatStore)" "''ann''" "''Idle''" "''bob''"]
  by simp

text \<open>
  Claim C7: the socket events sent by a step of the store are exactly these: \<open>initSocket\<close>
  in a store that is not connected emits \<^verbatim>\<open>user_connected\<close> with the user id on the socket
  it opens, \<open>sendMessage\<close> in a store with a socket emits \<^verbatim>\<open>send_message\<close> with the
  receiver id, the sender id and the content on that socket, and every other step emits
  nothing. \<open>initSocket\<close> opens a connection exactly when the store is not connected.
\<close>

theorem outbound_events:
  "emits (snd (step mode a st)) =
     (case a of
        InitSocket userId \<Rightarrow>
          (if isConnected st then []
           else [Emit (Socket (baseURL mode) userId) ''user_connected'' (JString userId)])
      | SendMessage receiverId senderId content \<Rightarrow>
          (case socket st of
             None \<Rightarrow> []
           | Some sock \<Rightarrow>
               [Emit sock ''send_message''
                  (JObject [(''receiverId'', JString receiverId),
                            (''senderId'', JString senderId),
                            (''content'', JString content)])])
      | _ \<Rightarrow> [])
   \<and> (Connect sock \<in> set (snd (step mode (InitSocket userId') st)))
       = (\<not> isConnected st \<and> sock = Socket (baseURL mode) userId')"
  by (cases a)
     (auto simp: setSelectedUser_def fetchUsers_start_def fetchMessages_start_def
        initSocket_def Let_def disconnectSocket_def sendMessage_def split: option.splits)

text \<open>
  Claim C8: \<open>isConnected\<close> is true exactly when \<open>socket\<close> is not null. This holds in the
  initial store, every operation, settling request and event handler preserves it, and so
  it holds after every run from the initial store.
\<close>

theorem isConnected_iff_socket:
  "conn_inv useChatStore
   \<and> (conn_inv st \<longrightarrow> conn_inv (fst (step mode a st)))
   \<and> conn_inv (fst (run mode acts useChatStore))"
proof -
  have init: "conn_inv useChatStore"
    by (simp add: conn_inv_def useChatStore_def)
  then have "conn_inv (fst (run mode acts useChatStore))"
    by (rule run_conn_inv)
  with init show ?thesis
    by (simp add: step_conn_inv)
qed

theorem isConnected_iff_socket_witness:
  "conn_inv (fst (step ''development'' (InitSocket ''u1'') (useChatStore :: (string, string) ChatStore)))
   \<and> conn_inv (fst (step ''development'' DisconnectSocket
        (fst (step ''development'' (InitSocket ''u1'') (useChatStore :: (string, string) ChatStore)))))
   \<and> isConnected (fst (run ''development'' [InitSocket ''u1'', Deliver (Message_sent ''hi'')]
        (useChatStore :: (string, string) ChatStore)))
   \<and> socket (fst (run ''development'' [InitSocket ''u1'', Deliver (Message_sent ''hi'')]
        (useChatStore :: (string, string) ChatStore))) = Some (Socket ''http://localhost:5000'' ''u1'')"
  using isConnected_iff_socket
    [of "fst (step ''development'' (InitSocket ''u1'') (useChatStore :: (string, string) ChatStore))"
        "''development''" DisconnectSocket "[InitSocket ''u1'', Deliver (Message_sent ''hi'')]"]
    isConnected_iff_socket
    [of "useChatStore :: (string, string) ChatStore"
        "''development''" "InitSocket ''u1''" "[]"]
  by (simp add: conn_inv_def initSocket_def Let_def baseURL_def useChatStore_def)

text \<open>
  Claim C9: \<open>sendMessage\<close> returns the store it was given, for all arguments; with no
  socket it also sends nothing and does not fail; the message enters \<open>messages\<close> when the
  \<^verbatim>\<open>message_sent\<close> event for it arrives afterwards.
\<close>

theorem sendMessage_frame:
  "fst (sendMessage receiverId senderId content st) = st
   \<and> (socket st = None \<longrightarrow> sendMessage receiverId senderId content st = (st, []))
   \<and> messages (socket_on (Message_sent m) (fst (sendMessage receiverId senderId content st)))
       = messages st @ [m]"
  by (simp add: sendMessage_def split: option.splits)

theorem sendMessage_frame_witness:
  "socket (useChatStore :: (string, string) ChatStore) = None
   \<and> sendMessage ''bob'' ''ann'' ''hola'' (useChatStore :: (string, string) ChatStore) = (useChatStore, [])
   \<and> messages (socket_on (Message_sent ''hola'')
        (fst (sendMessage ''bob'' ''ann'' ''hola'' (useChatStore :: (string, string) ChatStore)))) = [''hola'']"
  using sendMessage_frame
    [of "''bob''" "''ann''" "''hola''" "useChatStore :: (string, string) ChatStore" "''hola''"]
  by (simp add: useChatStore_def)

text \<open>
  Claim C10, as stated, says that after every call that succeeds \<open>error\<close> is \<^verbatim>\<open>null\<close>.
  The success branch never writes \<open>error\<close>, and other store updates run during the
  \<^verbatim>\<open>await\<close>: when \<open>fetchMessages\<close> is called while \<open>fetchUsers\<close> is pending and its
  request fails before the one of \<open>fetchUsers\<close> succeeds, \<open>fetchUsers\<close> completes
  successfully with the error of \<open>fetchMessages\<close> still in the store.
\<close>

theorem overlapping_fetch_keeps_error:
  "error (fst (run ''production''
       [FetchUsers_start, FetchMessages_start ''u1'',
        FetchMessages_settle (Rejected (AxiosError None)),
        FetchUsers_settle (Resolved [''ann''])]
       (useChatStore :: (string, string) ChatStore)))
     = JString ''Error al obtener mensajes''
   \<and> users (fst (run ''production''
       [FetchUsers_start, FetchMessages_start ''u1'',
        FetchMessages_settle (Rejected (AxiosError None)),
        FetchUsers_settle (Resolved [''ann''])]
       (useChatStore :: (string, string) ChatStore))) = [''ann'']
   \<and> error (fst (run ''production''
       [FetchUsers_start, FetchMessages_start ''u1'',
        FetchMessages_settle (Rejected (AxiosError None)),
        FetchUsers_settle (Resolved [''ann''])]
       (useChatStore :: (string, string) ChatStore))) \<noteq> JNull"
  by (simp add: fetchUsers_start_def fetchMessages_start_def fetchUsers_settle_def
        fetchMessages_settle_def useChatStore_def)

text \<open>
  Claim C10, amended: the first piece of \<open>fetchUsers\<close> and of \<open>fetchMessages\<close> sets
  \<open>error\<close> to \<^verbatim>\<open>null\<close> and the success branch leaves \<open>error\<close> as it finds it, so after a
  call that succeeds \<open>error\<close> is \<^verbatim>\<open>null\<close> whatever it was before the call, provided that
  no request fails between the start of the call and its completion (whatever else
  happens to the store in between, and in particular when nothing does). Each piece of a
  call that fails writes no field other than \<open>error\<close> and \<open>isLoading\<close>, so a failing call
  with nothing in between returns the store it was given up to these two fields.
\<close>

theorem fetch_error_reset:
  "error (fst (fetchUsers_start st)) = JNull
   \<and> error (fst (fetchMessages_start userId st)) = JNull
   \<and> error (fst (fetchUsers_settle (Resolved d) st)) = error st
   \<and> error (fst (fetchMessages_settle (Resolved d') st)) = error st
   \<and> ((\<forall>a \<in> set mid. \<not> rejected_settle a) \<longrightarrow>
        error (fst (run mode (FetchUsers_start # mid @ [FetchUsers_settle (Resolved d)]) st)) = JNull)
   \<and> ((\<forall>a \<in> set mid. \<not> rejected_settle a) \<longrightarrow>
        error (fst (run mode (FetchMessages_start userId # mid @ [FetchMessages_settle (Resolved d')]) st))
          = JNull)
   \<and> error (fst (fetchUsers (Resolved d) st)) = JNull
   \<and> error (fst (fetchMessages userId (Resolved d') st)) = JNull
   \<and> fst (fetchUsers_start st) = st\<lparr>isLoading := True, error := JNull\<rparr>
   \<and> fst (fetchMessages_start userId st) = st\<lparr>isLoading := True, error := JNull\<rparr>
   \<and> fst (fetchUsers_settle (Rejected e) st)
       = st\<lparr>isLoading := False, error := error (fst (fetchUsers_settle (Rejected e) st))\<rparr>
   \<and> fst (fetchMessages_settle (Rejected e) st)
       = st\<lparr>isLoading := False, error := error (fst (fetchMessages_settle (Rejected e) st))\<rparr>
   \<and> fst (fetchUsers (Rejected e) st)
       = st\<lparr>isLoading := False, error := error (fst (fetchUsers (Rejected e) st))\<rparr>
   \<and> fst (fetchMessages userId (Rejected e) st)
       = st\<lparr>isLoading := False, error := error (fst (fetchMessages userId (Rejected e) st))\<rparr>"
proof -
  have users_run: "error (fst (run mode (FetchUsers_start # mid @ [FetchUsers_settle (Resolved d)]) st)) = JNull"
    if mid: "\<forall>a \<in> set mid. \<not> rejected_settle a"
  proof -
    have "error (fst (step mode FetchUsers_start st)) = JNull"
      by (simp add: fetchUsers_start_def)
    with mid have "error (fst (run mode mid (fst (step mode FetchUsers_start st)))) = JNull"
      by (rule run_error_null)
    then show ?thesis
      by (simp only: run_Cons_fst run_append_fst) (simp add: fetchUsers_settle_def)
  qed
  have messages_run:
    "error (fst (run mode (FetchMessages_start userId # mid @ [FetchMessages_settle (Resolved d')]) st)) = JNull"
    if mid: "\<forall>a \<in> set mid. \<not> rejected_settle a"
  proof -
    have "error (fst (step mode (FetchMessages_start userId) st)) = JNull"
      by (simp add: fetchMessages_start_def)
    with mid have "error (fst (run mode mid (fst (step mode (FetchMessages_start userId) st)))) = JNull"
      by (rule run_error_null)
    then show ?thesis
      by (simp only: run_Cons_fst run_append_fst) (simp add: fetchMessages_settle_def)
  qed
  have pieces:
    "error (fst (fetchUsers_start st)) = JNull"
    "error (fst (fetchMessages_start userId st)) = JNull"
    "error (fst (fetchUsers_settle (Resolved d) st)) = error st"
    "error (fst (fetchMessages_settle (Resolved d') st)) = error st"
    "error (fst (fetchUsers (Resolved d) st)) = JNull"
    "error (fst (fetchMessages userId (Resolved d') st)) = JNull"
    "fst (fetchUsers_start st) = st\<lparr>isLoading := True, error := JNull\<rparr>"
    "fst (fetchMessages_start userId st) = st\<lparr>isLoading := True, error := JNull\<rparr>"
    by (simp_all add: fetchUsers_def fetchUsers_start_def fetchUsers_settle_def
          fetchMessages_def fetchMessages_start_def fetchMessages_settle_def)
  have frames:
    "fst (fetchUsers_settle (Rejected e) st)
       = st\<lparr>isLoading := False, error := error (fst (fetchUsers_settle (Rejected e) st))\<rparr>"
    "fst (fetchMessages_settle (Rejected e) st)
       = st\<lparr>isLoading := False, error := error (fst (fetchMessages_settle (Rejected e) st))\<rparr>"
    "fst (fetchUsers (Rejected e) st)
       = st\<lparr>isLoading := False, error := error (fst (fetchUsers (Rejected e) st))\<rparr>"
    "fst (fetchMessages userId (Rejected e) st)
       = st\<lparr>isLoading := False, error := error (fst (fetchMessages userId (Rejected e) st))\<rparr>"
    by (simp_all add: fetchUsers_def fetchUsers_start_def fetchUsers_settle_def
          fetchMessages_def fetchMessages_start_def fetchMessages_settle_def split: sum.splits)
  from users_run messages_run pieces frames show ?thesis by blast
qed

theorem fetch_error_reset_witness:
  "filter rejected_settle
       [Deliver (Receive_message ''hi''), FetchMessages_start ''u1'',
        FetchMessages_settle (Resolved [''hola'']) :: (string, string) action] = []
   \<and> error (fst (fetchUsers (Rejected (AxiosError None)) (useChatStore :: (string, string) ChatStore)))
       = JString ''Error al obtener usuarios''
   \<and> error (fst (run ''production''
        (FetchUsers_start #
           [Deliver (Receive_message ''hi''), FetchMessages_start ''u1'',
            FetchMessages_settle (Resolved [''hola''])] @ [FetchUsers_settle (Resolved [''ann''])])
        (fst (fetchUsers (Rejected (AxiosError None)) (useChatStore :: (string, string) ChatStore)))))
       = JNull"
proof -
  have mid: "\<forall>a \<in> set [Deliver (Receive_message ''hi''), FetchMessages_start ''u1'',
                 FetchMessages_settle (Resolved [''hola''])
                 :: (string, string) action]. \<not> rejected_settle a"
    by simp
  have before: "error (fst (fetchUsers (Rejected (AxiosError None)) (useChatStore :: (string, string) ChatStore)))
       = JString ''Error al obtener usuarios''"
    by (simp add: fetchUsers_def fetchUsers_start_def fetchUsers_settle_def)
  from mid before
    fetch_error_reset
      [where st = "fst (fetchUsers (Rejected (AxiosError None)) (useChatStore :: (string, string) ChatStore))"
         and mid = "[Deliver (Receive_message ''hi''), FetchMessages_start ''u1'',
                     FetchMessages_settle (Resolved [''hola''])]"
         and mode = "''production''" and d = "[''ann'']"]
  show ?thesis by simp
qed

end
